theory Spec2Isabelle
  imports Main
begin

section \<open>Strings\<close>

text \<open>
  Python strings are modelled as \<open>string\<close>. The string methods the scrapers use are
  written out.
\<close>

fun startswith :: "string \<Rightarrow> string \<Rightarrow> bool" where
  "startswith s [] = True"
| "startswith [] (p # ps) = False"
| "startswith (c # cs) (p # ps) = (c = p \<and> startswith cs ps)"

text \<open>
  \<open>s.rstrip(chars)\<close> removes from the right end the characters that belong to
  \<open>chars\<close>; \<open>s.strip()\<close> removes whitespace from both ends.
\<close>

fun rstrip_where :: "(char \<Rightarrow> bool) \<Rightarrow> string \<Rightarrow> string" where
  "rstrip_where P [] = []"
| "rstrip_where P (c # cs) =
     (let r = rstrip_where P cs in if r = [] \<and> P c then [] else c # r)"

definition rstrip :: "string \<Rightarrow> string \<Rightarrow> string" where
  "rstrip chars s = rstrip_where (\<lambda>c. c \<in> set chars) s"

text \<open>The characters of the first 256 code points for which \<open>str.isspace\<close> holds.\<close>

definition is_space :: "char \<Rightarrow> bool" where
  "is_space c = ((of_char c :: nat) \<in> {9, 10, 11, 12, 13, 28, 29, 30, 31, 32, 133, 160})"

definition strip :: "string \<Rightarrow> string" where
  "strip s = rstrip_where is_space (dropWhile is_space s)"

text \<open>
  \<open>s.replace(old, new)\<close> for a non-empty \<open>old\<close>: occurrences are replaced from left to
  right without overlap; \<open>skip\<close> counts the characters of an occurrence still to be
  dropped.
\<close>

fun replace_from :: "string \<Rightarrow> string \<Rightarrow> nat \<Rightarrow> string \<Rightarrow> string" where
  "replace_from old new skip [] = []"
| "replace_from old new skip (c # cs) =
     (if 0 < skip then replace_from old new (skip - 1) cs
      else if startswith (c # cs) old then new @ replace_from old new (length old - 1) cs
      else c # replace_from old new 0 cs)"

definition replace :: "string \<Rightarrow> string \<Rightarrow> string \<Rightarrow> string" where
  "replace old new s = replace_from old new 0 s"

text \<open>\<open>s.split('\n')[0]\<close>: the part of \<open>s\<close> before its first newline.\<close>

definition first_line :: "string \<Rightarrow> string" where
  "first_line s = takeWhile (\<lambda>c. c \<noteq> CHR 0x0A) s"

text \<open>\<open>str(n)\<close> of a natural number.\<close>

fun str_nat :: "nat \<Rightarrow> string" where
  "str_nat n =
     (if n < 10 then [''0123456789'' ! n]
      else str_nat (n div 10) @ [''0123456789'' ! (n mod 10)])"

section \<open>URL formatting (\<open>BaseScraper._format_url\<close>)\<close>

definition format_url :: "string \<Rightarrow> string" where
  "format_url url =
     (let url1 = (if \<not> (startswith url ''http://'' \<or> startswith url ''https://'')
                  then ''https://'' @ url else url)
      in rstrip ''/'' url1)"

section \<open>Link classification (\<open>validate_social_link\<close>)\<close>

text \<open>
  The pattern table is a dictionary of dictionaries; both keep their insertion order, so
  they are association lists. A backslash of the source's raw strings is written
  \<open>CHR 0x5C\<close>.
\<close>

abbreviation (input) BSL :: char where
  "BSL \<equiv> CHR 0x5C"

definition platform_patterns :: "(string \<times> (string \<times> string) list) list" where
  "platform_patterns =
    [(''YouTube'',
        [(''channel'', ''youtube'' @ BSL # ''.com/@?['' @ BSL # ''w-]+/?$''),
         (''video'', ''youtube'' @ BSL # ''.com/watch'' @ BSL # ''?v=['' @ BSL # ''w-]+'')]),
     (''Instagram'',
        [(''profile'', ''instagram'' @ BSL # ''.com/['' @ BSL # ''w_.]+/?$''),
         (''post'', ''instagram'' @ BSL # ''.com/p/['' @ BSL # ''w-]+'')]),
     (''TikTok'',
        [(''profile'', ''tiktok'' @ BSL # ''.com/@['' @ BSL # ''w.]+/?$''),
         (''video'', ''tiktok'' @ BSL # ''.com/@['' @ BSL # ''w.]+/video/'' @ BSL # ''d+'')]),
     (''Facebook'',
        [(''profile'', ''facebook'' @ BSL # ''.com/['' @ BSL # ''w.]+/?$''),
         (''post'', ''facebook'' @ BSL # ''.com/['' @ BSL # ''w.]+/posts/['' @ BSL # ''w-]+'')])]"

text \<open>\<open>platform_patterns.get(platform, {})\<close>\<close>

definition patterns_of :: "string \<Rightarrow> (string \<times> string) list" where
  "patterns_of platform =
     (case map_of platform_patterns platform of None \<Rightarrow> [] | Some ps \<Rightarrow> ps)"

text \<open>
  The loop over \<open>patterns.items()\<close>. The regular-expression library is not part of the
  repository: \<open>re_search pattern link\<close> stands for the truth value of
  \<open>re.search(pattern, link)\<close> and is a parameter.
\<close>

fun match_loop :: "(string \<Rightarrow> string \<Rightarrow> bool) \<Rightarrow> (string \<times> string) list \<Rightarrow> string \<Rightarrow> bool \<times> string" where
  "match_loop re_search [] link = (False, ''invalid'')"
| "match_loop re_search ((link_type, pattern) # rest) link =
     (if re_search pattern link then (True, link_type)
      else match_loop re_search rest link)"

definition validate_social_link :: "(string \<Rightarrow> string \<Rightarrow> bool) \<Rightarrow> string \<Rightarrow> string \<Rightarrow> bool \<times> string" where
  "validate_social_link re_search platform link =
     match_loop re_search (patterns_of platform) link"

section \<open>A matcher for the pattern fragment of the table\<close>

text \<open>
  For concrete runs of \<open>validate_social_link\<close> the parameter \<open>re_search\<close> is
  instantiated with a backtracking matcher for the fragment of Python's regular
  expressions that the table uses: literal characters, the escapes \<open>\w\<close>, \<open>\d\<close> and
  escaped punctuation, bracket sets, the postfix operators \<open>?\<close> and \<open>+\<close>, and \<open>$\<close>.
  Characters are ASCII. The general theorems do not depend on it.
\<close>

datatype atom = Lit char | Word | Digit | Set "atom list" | Eol

datatype quant = One | Opt | Plus

definition is_digit :: "char \<Rightarrow> bool" where
  "is_digit c = (let n = (of_char c :: nat) in 48 \<le> n \<and> n \<le> 57)"

definition is_word :: "char \<Rightarrow> bool" where
  "is_word c = (let n = (of_char c :: nat) in
     (48 \<le> n \<and> n \<le> 57) \<or> (65 \<le> n \<and> n \<le> 90) \<or> (97 \<le> n \<and> n \<le> 122) \<or> n = 95)"

fun atom_ok :: "atom \<Rightarrow> char \<Rightarrow> bool" where
  "atom_ok (Lit x) c = (c = x)"
| "atom_ok Word c = is_word c"
| "atom_ok Digit c = is_digit c"
| "atom_ok (Set as) c = list_ex (\<lambda>a. atom_ok a c) as"
| "atom_ok Eol c = False"

definition escape :: "char \<Rightarrow> atom" where
  "escape c = (if c = CHR ''w'' then Word else if c = CHR ''d'' then Digit else Lit c)"

fun requant :: "quant \<Rightarrow> (atom \<times> quant) list \<Rightarrow> (atom \<times> quant) list" where
  "requant q [] = []"
| "requant q ((a, q0) # acc) = (a, q) # acc"

datatype mode = Top | Esc | InSet "atom list" | EscSet "atom list"

text \<open>One pass over the pattern; the items are collected in reverse.\<close>

fun scan :: "mode \<Rightarrow> (atom \<times> quant) list \<Rightarrow> string \<Rightarrow> (atom \<times> quant) list" where
  "scan m acc [] = rev acc"
| "scan Top acc (c # cs) =
     (if c = BSL then scan Esc acc cs
      else if c = CHR ''['' then scan (InSet []) acc cs
      else if c = CHR ''$'' then scan Top ((Eol, One) # acc) cs
      else if c = CHR ''?'' then scan Top (requant Opt acc) cs
      else if c = CHR ''+'' then scan Top (requant Plus acc) cs
      else scan Top ((Lit c, One) # acc) cs)"
| "scan Esc acc (c # cs) = scan Top ((escape c, One) # acc) cs"
| "scan (InSet as) acc (c # cs) =
     (if c = CHR '']'' then scan Top ((Set as, One) # acc) cs
      else if c = BSL then scan (EscSet as) acc cs
      else scan (InSet (as @ [Lit c])) acc cs)"
| "scan (EscSet as) acc (c # cs) = scan (InSet (as @ [escape c])) acc cs"

text \<open>
  \<open>rmatch items s\<close>: the items match a prefix of \<open>s\<close>. \<open>$\<close> matches at the end of the
  string and before a final newline.
\<close>

fun rmatch :: "(atom \<times> quant) list \<Rightarrow> string \<Rightarrow> bool" where
  "rmatch [] s = True"
| "rmatch ((a, q) # r) [] =
     (if a = Eol then rmatch r [] else if q = Opt then rmatch r [] else False)"
| "rmatch ((a, q) # r) (c # cs) =
     (if a = Eol then (cs = [] \<and> c = CHR 0x0A \<and> rmatch r (c # cs))
      else if q = One then (atom_ok a c \<and> rmatch r cs)
      else if q = Opt then ((atom_ok a c \<and> rmatch r cs) \<or> rmatch r (c # cs))
      else (atom_ok a c \<and> (rmatch ((a, q) # r) cs \<or> rmatch r cs)))"

fun search_from :: "(atom \<times> quant) list \<Rightarrow> string \<Rightarrow> bool" where
  "search_from items [] = rmatch items []"
| "search_from items (c # cs) = (rmatch items (c # cs) \<or> search_from items cs)"

definition re_search_ascii :: "string \<Rightarrow> string \<Rightarrow> bool" where
  "re_search_ascii pattern s = search_from (scan Top [] pattern) s"

section \<open>The browser driver\<close>

text \<open>
  Selenium is outside the repository. What the scrapers see of it is modelled as
  follows. An exception is a value with its class and message; \<open>except Exception\<close> and
  a bare \<open>except\<close> catch every one of them, \<open>except TimeoutException\<close> only the first.
\<close>

datatype exn =
    TimeoutException string
  | NoSuchElementException string
  | WebDriverException string
  | Exception string

fun str_exn :: "exn \<Rightarrow> string" where
  "str_exn (TimeoutException m) = m"
| "str_exn (NoSuchElementException m) = m"
| "str_exn (WebDriverException m) = m"
| "str_exn (Exception m) = m"

fun is_timeout :: "exn \<Rightarrow> bool" where
  "is_timeout (TimeoutException m) = True"
| "is_timeout e = False"

datatype By = ID | XPATH | CSS_SELECTOR

text \<open>
  An element is a handle into the page. Reading its \<open>text\<close> property or one of its
  attributes is a call to the driver like any other: it may raise, and two reads of the
  same element may give different values.
\<close>

datatype web_element = WebElement nat

text \<open>
  The value of \<open>execute_script\<close>: \<open>None\<close>, a string, or a value of another type, of
  which only the truth value matters.
\<close>

datatype js_value = JsNone | JsStr string | JsOther bool

fun js_truthy :: "js_value \<Rightarrow> bool" where
  "js_truthy JsNone = False"
| "js_truthy (JsStr s) = (s \<noteq> [])"
| "js_truthy (JsOther t) = t"

text \<open>
  Every call to the driver, and every \<open>time.sleep\<close>, is recorded with its outcome in a
  trace. The browser answers a call as a function of the trace so far, so that the same
  call may fail once and succeed later. Logging does not influence the control flow and
  is left out of the trace.
\<close>

datatype event =
    EvChrome "exn option"
  | EvSetPageLoadTimeout nat "exn option"
  | EvSleep nat
  | EvGet string "exn option"
  | EvFindElement By string "exn + web_element"
  | EvWaitPresence By string "exn + web_element"
  | EvText web_element "exn + string"
  | EvGetAttribute web_element string "exn + string option"
  | EvExecuteScript string "exn + js_value"
  | EvTitle "exn + string"
  | EvQuit "exn option"

record browser =
  chrome :: "event list \<Rightarrow> exn option"
  set_page_load_timeout :: "event list \<Rightarrow> nat \<Rightarrow> exn option"
  driver_get :: "event list \<Rightarrow> string \<Rightarrow> exn option"
  find_element :: "event list \<Rightarrow> By \<Rightarrow> string \<Rightarrow> exn + web_element"
  wait_presence :: "event list \<Rightarrow> By \<Rightarrow> string \<Rightarrow> exn + web_element"
  element_text :: "event list \<Rightarrow> web_element \<Rightarrow> exn + string"
  element_attribute :: "event list \<Rightarrow> web_element \<Rightarrow> string \<Rightarrow> exn + string option"
  execute_script :: "event list \<Rightarrow> string \<Rightarrow> exn + js_value"
  driver_title :: "event list \<Rightarrow> exn + string"
  driver_quit :: "event list \<Rightarrow> exn option"

definition sleep :: "nat \<Rightarrow> event list \<Rightarrow> event list" where
  "sleep n tr = tr @ [EvSleep n]"

definition call_get :: "browser \<Rightarrow> string \<Rightarrow> event list \<Rightarrow> exn option \<times> event list" where
  "call_get b url tr = (let r = driver_get b tr url in (r, tr @ [EvGet url r]))"

definition call_find_element :: "browser \<Rightarrow> By \<Rightarrow> string \<Rightarrow> event list \<Rightarrow> (exn + web_element) \<times> event list" where
  "call_find_element b how v tr =
     (let r = find_element b tr how v in (r, tr @ [EvFindElement how v r]))"

text \<open>\<open>self.wait.until(EC.presence_of_element_located((by, value)))\<close>\<close>

definition call_wait_presence :: "browser \<Rightarrow> By \<Rightarrow> string \<Rightarrow> event list \<Rightarrow> (exn + web_element) \<times> event list" where
  "call_wait_presence b how v tr =
     (let r = wait_presence b tr how v in (r, tr @ [EvWaitPresence how v r]))"

text \<open>\<open>element.text\<close> and \<open>element.get_attribute(name)\<close>\<close>

definition call_text :: "browser \<Rightarrow> web_element \<Rightarrow> event list \<Rightarrow> (exn + string) \<times> event list" where
  "call_text b el tr = (let r = element_text b tr el in (r, tr @ [EvText el r]))"

definition call_get_attribute :: "browser \<Rightarrow> web_element \<Rightarrow> string \<Rightarrow> event list \<Rightarrow> (exn + string option) \<times> event list" where
  "call_get_attribute b el name tr =
     (let r = element_attribute b tr el name in (r, tr @ [EvGetAttribute el name r]))"

definition call_execute_script :: "browser \<Rightarrow> string \<Rightarrow> event list \<Rightarrow> (exn + js_value) \<times> event list" where
  "call_execute_script b script tr =
     (let r = execute_script b tr script in (r, tr @ [EvExecuteScript script r]))"

definition call_title :: "browser \<Rightarrow> event list \<Rightarrow> (exn + string) \<times> event list" where
  "call_title b tr = (let r = driver_title b tr in (r, tr @ [EvTitle r]))"

section \<open>\<open>BaseScraper\<close>: start, teardown, navigation\<close>

definition max_retries :: nat where
  "max_retries = 3"

definition retry_delay :: nat where
  "retry_delay = 2"

text \<open>
  The attribute \<open>driver\<close> of a scraper object: absent (before the first statement of
  \<open>__init__\<close>), \<open>None\<close>, or a driver. \<open>wait\<close> tells whether \<open>self.wait\<close> is set.
\<close>

datatype driver_attr = NoAttr | IsNone | IsDriver

record scraper =
  driver :: driver_attr
  wait :: bool

text \<open>
  The body of the \<open>try\<close> in \<open>__init__\<close>: one launch attempt. Building the options and
  the service belongs to the call of \<open>webdriver.Chrome\<close>.
\<close>

definition launch_attempt :: "browser \<Rightarrow> scraper \<Rightarrow> event list \<Rightarrow> exn option \<times> scraper \<times> event list" where
  "launch_attempt b self tr =
     (let r = chrome b tr; tr1 = tr @ [EvChrome r] in
      case r of
        Some e \<Rightarrow> (Some e, self, tr1)
      | None \<Rightarrow>
          (let self1 = self\<lparr>driver := IsDriver\<rparr>;
               r2 = set_page_load_timeout b tr1 30;
               tr2 = tr1 @ [EvSetPageLoadTimeout 30 r2]
           in case r2 of
                Some e \<Rightarrow> (Some e, self1, tr2)
              | None \<Rightarrow> (None, self1\<lparr>wait := True\<rparr>, tr2)))"

definition launch_error :: "exn \<Rightarrow> exn" where
  "launch_error e =
     Exception (''Failed to initialize Chrome driver after '' @ str_nat max_retries
                @ '' attempts: '' @ str_exn e)"

text \<open>The loop \<open>for attempt in range(self.max_retries)\<close> of \<open>__init__\<close>.\<close>

fun init_loop :: "browser \<Rightarrow> nat list \<Rightarrow> scraper \<Rightarrow> event list \<Rightarrow> exn option \<times> scraper \<times> event list" where
  "init_loop b [] self tr = (None, self, tr)"
| "init_loop b (attempt # rest) self tr =
     (case launch_attempt b self tr of
        (None, self1, tr1) \<Rightarrow> (None, self1, tr1)
      | (Some e, self1, tr1) \<Rightarrow>
          if attempt = max_retries - 1 then (Some (launch_error e), self1, tr1)
          else init_loop b rest self1 (sleep retry_delay tr1))"

text \<open>
  \<open>BaseScraper.__init__\<close>. When it raises, the partially initialised object is
  returned as well: it is the one \<open>__del__\<close> later runs on.
\<close>

definition base_init :: "browser \<Rightarrow> event list \<Rightarrow> exn option \<times> scraper \<times> event list" where
  "base_init b tr = init_loop b [0..<max_retries] \<lparr>driver = IsNone, wait = False\<rparr> tr"

text \<open>\<open>BaseScraper.__del__\<close>\<close>

definition scraper_del :: "browser \<Rightarrow> scraper \<Rightarrow> event list \<Rightarrow> exn option \<times> scraper \<times> event list" where
  "scraper_del b self tr =
     (if driver self = IsDriver then
        (let r = driver_quit b tr; tr1 = tr @ [EvQuit r] in
         case r of
           None \<Rightarrow> (None, self, tr1)
         | Some e \<Rightarrow> (None, self, tr1))
      else (None, self, tr))"

text \<open>
  \<open>BaseScraper._safe_get\<close>. \<open>range(max_retries)\<close> is empty for a non-positive
  argument. The methods below run on a scraper whose \<open>__init__\<close> returned, so
  \<open>self.driver\<close> and \<open>self.wait\<close> are set.
\<close>

definition range_list :: "int \<Rightarrow> int list" where
  "range_list n = map int [0..<nat n]"

fun safe_get_loop :: "browser \<Rightarrow> string \<Rightarrow> int \<Rightarrow> int list \<Rightarrow> event list \<Rightarrow> bool \<times> event list" where
  "safe_get_loop b url n [] tr = (False, tr)"
| "safe_get_loop b url n (attempt # rest) tr =
     (case call_get b url tr of
        (None, tr1) \<Rightarrow> (True, tr1)
      | (Some e, tr1) \<Rightarrow>
          if attempt = n - 1 then (False, tr1)
          else safe_get_loop b url n rest (sleep retry_delay tr1))"

definition safe_get_n :: "browser \<Rightarrow> string \<Rightarrow> int \<Rightarrow> event list \<Rightarrow> bool \<times> event list" where
  "safe_get_n b url n tr = safe_get_loop b url n (range_list n) tr"

definition safe_get :: "browser \<Rightarrow> string \<Rightarrow> event list \<Rightarrow> bool \<times> event list" where
  "safe_get b url tr = safe_get_n b url 3 tr"

text \<open>\<open>BaseScraper._safe_find_element\<close>: \<open>None\<close> instead of an exception.\<close>

definition safe_find_element :: "browser \<Rightarrow> By \<Rightarrow> string \<Rightarrow> event list \<Rightarrow> web_element option \<times> event list" where
  "safe_find_element b how v tr =
     (case call_wait_presence b how v tr of
        (Inr el, tr1) \<Rightarrow> (Some el, tr1)
      | (Inl e, tr1) \<Rightarrow> (None, tr1))"

section \<open>Result records\<close>

text \<open>
  A result is a Python dictionary from field names to strings: an association list in
  insertion order. \<open>result[key] = value\<close> replaces the value of a key that is present and
  appends the key otherwise; \<open>result[key]\<close> raises \<open>KeyError\<close> when the key is absent
  (\<open>map_of\<close> gives \<open>None\<close>).
\<close>

type_synonym result = "(string \<times> string) list"

fun dict_set :: "string \<Rightarrow> string \<Rightarrow> result \<Rightarrow> result" where
  "dict_set k v [] = [(k, v)]"
| "dict_set k v ((k', v') # rest) =
     (if k' = k then (k, v) # rest else (k', v') # dict_set k v rest)"

definition keys :: "result \<Rightarrow> string list" where
  "keys result = map fst result"

section \<open>Reading an element\<close>

text \<open>\<open>element.text.strip()\<close>\<close>

definition text_strip :: "browser \<Rightarrow> web_element \<Rightarrow> event list \<Rightarrow> (exn + string) \<times> event list" where
  "text_strip b el tr =
     (case call_text b el tr of
        (Inl e, tr1) \<Rightarrow> (Inl e, tr1)
      | (Inr s, tr1) \<Rightarrow> (Inr (strip s), tr1))"

text \<open>\<open>self.driver.find_element(how, v).text.strip()\<close>\<close>

definition find_text_strip :: "browser \<Rightarrow> By \<Rightarrow> string \<Rightarrow> event list \<Rightarrow> (exn + string) \<times> event list" where
  "find_text_strip b how v tr =
     (case call_find_element b how v tr of
        (Inl e, tr1) \<Rightarrow> (Inl e, tr1)
      | (Inr el, tr1) \<Rightarrow> text_strip b el tr1)"

text \<open>\<open>self.driver.find_element(how, v).get_attribute(name)\<close>\<close>

definition find_attribute :: "browser \<Rightarrow> By \<Rightarrow> string \<Rightarrow> string \<Rightarrow> event list \<Rightarrow> (exn + string option) \<times> event list" where
  "find_attribute b how v name tr =
     (case call_find_element b how v tr of
        (Inl e, tr1) \<Rightarrow> (Inl e, tr1)
      | (Inr el, tr1) \<Rightarrow> call_get_attribute b el name tr1)"

text \<open>\<open>if value: result[key] = value\<close>\<close>

definition set_if_nonempty :: "string \<Rightarrow> string \<Rightarrow> result \<Rightarrow> result" where
  "set_if_nonempty key v result = (if v \<noteq> [] then dict_set key v result else result)"

text \<open>
  The body of the \<open>try\<close> in the selector loops, once the element is there:
  \<open>if elem and elem.text.strip(): result[key] = elem.text.strip(); break\<close>.
  An element object is true. The text is read twice, once for the test and once for the
  assignment. The outcome is an exception, the updated result (then the loop breaks), or
  nothing.
\<close>

definition try_assign :: "browser \<Rightarrow> string \<Rightarrow> web_element \<Rightarrow> result \<Rightarrow> event list \<Rightarrow> (exn + result option) \<times> event list" where
  "try_assign b key el result tr =
     (case text_strip b el tr of
        (Inl e, tr1) \<Rightarrow> (Inl e, tr1)
      | (Inr t, tr1) \<Rightarrow>
          if t \<noteq> [] then
            (case text_strip b el tr1 of
               (Inl e, tr2) \<Rightarrow> (Inl e, tr2)
             | (Inr t2, tr2) \<Rightarrow> (Inr (Some (dict_set key t2 result)), tr2))
          else (Inr None, tr1))"

section \<open>\<open>YouTubeScraper\<close>\<close>

definition yt_profile_init :: result where
  "yt_profile_init =
     [(''platform'', ''YouTube''), (''type'', ''channel''),
      (''channel_name'', ''Unknown''), (''subscribers'', ''Not available'')]"

text \<open>The nested \<open>try\<close> chain for the channel name: three methods.\<close>

definition yt_channel_name :: "browser \<Rightarrow> result \<Rightarrow> event list \<Rightarrow> result \<times> event list" where
  "yt_channel_name b result tr =
     (case find_text_strip b XPATH ''//yt-formatted-string[contains(@class, 'ytd-channel-name')]'' tr of
        (Inr channel_name, tr1) \<Rightarrow> (set_if_nonempty ''channel_name'' channel_name result, tr1)
      | (Inl e1, tr1) \<Rightarrow>
          (case find_text_strip b CSS_SELECTOR ''ytd-channel-name h1'' tr1 of
             (Inr channel_name, tr2) \<Rightarrow> (set_if_nonempty ''channel_name'' channel_name result, tr2)
           | (Inl e2, tr2) \<Rightarrow>
               (case find_attribute b XPATH ''//meta[@property='og:title']'' ''content'' tr2 of
                  (Inr (Some channel_name), tr3) \<Rightarrow>
                    (if channel_name \<noteq> []
                     then dict_set ''channel_name'' (replace '' - YouTube'' [] channel_name) result
                     else result, tr3)
                | (Inr None, tr3) \<Rightarrow> (result, tr3)
                | (Inl e3, tr3) \<Rightarrow> (result, tr3))))"

text \<open>The nested \<open>try\<close> chain for the subscriber count.\<close>

definition yt_subscribers :: "browser \<Rightarrow> result \<Rightarrow> event list \<Rightarrow> result \<times> event list" where
  "yt_subscribers b result tr =
     (case find_text_strip b ID ''subscriber-count'' tr of
        (Inr sub_count, tr1) \<Rightarrow> (set_if_nonempty ''subscribers'' sub_count result, tr1)
      | (Inl e1, tr1) \<Rightarrow>
          (case find_text_strip b XPATH ''//yt-formatted-string[@id='subscriber-count']'' tr1 of
             (Inr sub_count, tr2) \<Rightarrow> (set_if_nonempty ''subscribers'' sub_count result, tr2)
           | (Inl e2, tr2) \<Rightarrow>
               (case find_text_strip b CSS_SELECTOR ''#metadata-container #subscriber-count'' tr2 of
                  (Inr sub_count, tr3) \<Rightarrow> (set_if_nonempty ''subscribers'' sub_count result, tr3)
                | (Inl e3, tr3) \<Rightarrow> (result, tr3))))"

text \<open>
  The script fallbacks: \<open>v = execute_script(script); if v: result[key] = post(v)\<close> inside
  \<open>try ... except: pass\<close>. A true value that is not a string has no \<open>split\<close> or
  \<open>strip\<close>; the \<open>AttributeError\<close> is caught like every other exception.
\<close>

definition js_fallback :: "browser \<Rightarrow> string \<Rightarrow> string \<Rightarrow> (string \<Rightarrow> string) \<Rightarrow> result \<Rightarrow> event list \<Rightarrow> result \<times> event list" where
  "js_fallback b key script post result tr =
     (case call_execute_script b script tr of
        (Inl e, tr1) \<Rightarrow> (result, tr1)
      | (Inr v, tr1) \<Rightarrow>
          (if js_truthy v then
             (case v of JsStr s \<Rightarrow> dict_set key (post s) result | JsNone \<Rightarrow> result | JsOther t \<Rightarrow> result)
           else result, tr1))"

text \<open>
  The \<open>try\<close> block of \<open>scrape_profile\<close> ends with three steps, written from the last to
  the first; each is the rest of the block from its statement on and gives the result
  and the trace with which the block is left. \<open>result[key]\<close> on a missing key raises
  \<open>KeyError\<close>, and so may \<open>self.driver.title\<close> raise: the handler of the block then
  returns the result as it is, like the \<open>return\<close> at the end of the block does.
\<close>

text \<open>The log: the page title is read when a field still has its sentinel.\<close>

definition yt_profile_log :: "browser \<Rightarrow> result \<Rightarrow> event list \<Rightarrow> result \<times> event list" where
  "yt_profile_log b result tr =
     (case map_of result ''channel_name'' of
        None \<Rightarrow> (result, tr)
      | Some cn \<Rightarrow>
          if cn = ''Unknown'' then (result, snd (call_title b tr))
          else (case map_of result ''subscribers'' of
                  None \<Rightarrow> (result, tr)
                | Some sc \<Rightarrow>
                    if sc = ''Not available'' then (result, snd (call_title b tr))
                    else (result, tr)))"

text \<open>\<open>if result["subscribers"] == "Not available": ...\<close> and what follows.\<close>

definition yt_profile_js_subscribers :: "browser \<Rightarrow> result \<Rightarrow> event list \<Rightarrow> result \<times> event list" where
  "yt_profile_js_subscribers b result tr =
     (case map_of result ''subscribers'' of
        None \<Rightarrow> (result, tr)
      | Some sc \<Rightarrow>
          (let (result1, tr1) =
                 (if sc = ''Not available''
                  then js_fallback b ''subscribers''
                         ''return document.querySelector('#subscriber-count').innerText''
                         strip result tr
                  else (result, tr))
           in yt_profile_log b result1 tr1))"

text \<open>\<open>if result["channel_name"] == "Unknown": ...\<close> and what follows.\<close>

definition yt_profile_js_channel_name :: "browser \<Rightarrow> result \<Rightarrow> event list \<Rightarrow> result \<times> event list" where
  "yt_profile_js_channel_name b result tr =
     (case map_of result ''channel_name'' of
        None \<Rightarrow> (result, tr)
      | Some cn \<Rightarrow>
          (let (result1, tr1) =
                 (if cn = ''Unknown''
                  then js_fallback b ''channel_name''
                         ''return document.querySelector('ytd-channel-name').innerText''
                         (\<lambda>s. strip (first_line s)) result tr
                  else (result, tr))
           in yt_profile_js_subscribers b result1 tr1))"

text \<open>The \<open>try\<close> block of \<open>scrape_profile\<close> after the scroll.\<close>

definition yt_profile_lookups :: "browser \<Rightarrow> result \<Rightarrow> event list \<Rightarrow> result \<times> event list" where
  "yt_profile_lookups b result tr =
     (let (result1, tr1) = yt_channel_name b result tr;
          (result2, tr2) = yt_subscribers b result1 tr1
      in yt_profile_js_channel_name b result2 tr2)"

definition youtube_scrape_profile :: "browser \<Rightarrow> string \<Rightarrow> event list \<Rightarrow> (exn + result) \<times> event list" where
  "youtube_scrape_profile b url0 tr =
     (let url = format_url url0;
          (ok, tr1) = safe_get b url tr
      in if \<not> ok then (Inl (Exception ''Failed to load YouTube channel''), tr1)
         else
          (let result = yt_profile_init;
               tr2 = sleep 5 tr1
           in case call_execute_script b ''window.scrollTo(0, document.body.scrollHeight/2);'' tr2 of
                (Inl e, tr3) \<Rightarrow> (Inr result, tr3)
              | (Inr v, tr3) \<Rightarrow>
                 (let (result1, tr4) = yt_profile_lookups b result (sleep 2 tr3)
                  in (Inr result1, tr4))))"

definition yt_post_init :: result where
  "yt_post_init =
     [(''platform'', ''YouTube''), (''type'', ''video''), (''title'', ''Unknown''),
      (''likes'', ''Not available''), (''views'', ''Not available'')]"

definition title_selectors :: "string list" where
  "title_selectors =
     [''h1.ytd-video-primary-info-renderer yt-formatted-string'',
      ''#container h1.ytd-video-primary-info-renderer'',
      ''ytd-watch-metadata h1.ytd-watch-metadata yt-formatted-string'',
      ''#title h1 yt-formatted-string'']"

definition yt_like_selectors :: "string list" where
  "yt_like_selectors =
     [''#top-level-buttons-computed ytd-toggle-button-renderer:first-child #text'',
      ''ytd-menu-renderer ytd-toggle-button-renderer #text'',
      ''#info ytd-toggle-button-renderer:first-child #text'',
      ''ytd-watch-metadata ytd-toggle-button-renderer #text'']"

text \<open>
  The selector loop of \<open>YouTubeScraper.scrape_post\<close>:
  \<open>for selector in selectors: try: elem = self.wait.until(...); ... break; except: continue\<close>.
\<close>

fun yt_selector_loop :: "browser \<Rightarrow> string \<Rightarrow> string list \<Rightarrow> result \<Rightarrow> event list \<Rightarrow> result \<times> event list" where
  "yt_selector_loop b key [] result tr = (result, tr)"
| "yt_selector_loop b key (selector # rest) result tr =
     (case call_wait_presence b CSS_SELECTOR selector tr of
        (Inl e, tr1) \<Rightarrow> yt_selector_loop b key rest result tr1
      | (Inr el, tr1) \<Rightarrow>
          (case try_assign b key el result tr1 of
             (Inl e, tr2) \<Rightarrow> yt_selector_loop b key rest result tr2
           | (Inr (Some result1), tr2) \<Rightarrow> (result1, tr2)
           | (Inr None, tr2) \<Rightarrow> yt_selector_loop b key rest result tr2))"

text \<open>The XPath fallback for the title: \<open>try: ... except: pass\<close>.\<close>

definition yt_title_xpath :: "browser \<Rightarrow> result \<Rightarrow> event list \<Rightarrow> result \<times> event list" where
  "yt_title_xpath b result tr =
     (case call_find_element b XPATH
             ''//h1[contains(@class, 'ytd-video-primary-info-renderer')]//yt-formatted-string'' tr of
        (Inl e, tr1) \<Rightarrow> (result, tr1)
      | (Inr el, tr1) \<Rightarrow>
          (case try_assign b ''title'' el result tr1 of
             (Inl e, tr2) \<Rightarrow> (result, tr2)
           | (Inr (Some result1), tr2) \<Rightarrow> (result1, tr2)
           | (Inr None, tr2) \<Rightarrow> (result, tr2)))"

text \<open>\<open>if result["title"] == "Unknown": ...\<close>, the last step of the \<open>try\<close> block.\<close>

definition yt_post_title_fallback :: "browser \<Rightarrow> result \<Rightarrow> event list \<Rightarrow> result \<times> event list" where
  "yt_post_title_fallback b result tr =
     (case map_of result ''title'' of
        None \<Rightarrow> (result, tr)
      | Some t \<Rightarrow> if t = ''Unknown'' then yt_title_xpath b result tr else (result, tr))"

definition yt_post_lookups :: "browser \<Rightarrow> result \<Rightarrow> event list \<Rightarrow> result \<times> event list" where
  "yt_post_lookups b result tr =
     (let (result1, tr1) = yt_selector_loop b ''title'' title_selectors result tr;
          (result2, tr2) = yt_selector_loop b ''likes'' yt_like_selectors result1 tr1
      in yt_post_title_fallback b result2 tr2)"

definition youtube_scrape_post :: "browser \<Rightarrow> string \<Rightarrow> event list \<Rightarrow> (exn + result) \<times> event list" where
  "youtube_scrape_post b url0 tr =
     (let url = format_url url0;
          (ok, tr1) = safe_get b url tr
      in if \<not> ok then (Inl (Exception ''Failed to load YouTube video''), tr1)
         else
          (let result = yt_post_init;
               (result1, tr2) = yt_post_lookups b result (sleep 5 tr1)
           in (Inr result1, tr2)))"

section \<open>\<open>InstagramScraper\<close>\<close>

definition ig_profile_init :: result where
  "ig_profile_init =
     [(''platform'', ''Instagram''), (''type'', ''profile''), (''followers'', ''Not available''),
      (''following'', ''Not available''), (''posts'', ''Not available'')]"

definition follower_selectors :: "string list" where
  "follower_selectors = [''li:nth-child(2) span span'', ''span._ac2a'', ''span.g47SY'']"

definition following_selectors :: "string list" where
  "following_selectors =
     [''li:nth-child(3) span span'', ''span._ac2a:nth-child(2)'', ''span.g47SY:nth-child(2)'']"

text \<open>
  The selector loop of \<open>InstagramScraper\<close>: the lookup is \<open>_safe_find_element\<close>, which
  gives \<open>None\<close> when the element is not found.
\<close>

fun ig_selector_loop :: "browser \<Rightarrow> string \<Rightarrow> string list \<Rightarrow> result \<Rightarrow> event list \<Rightarrow> result \<times> event list" where
  "ig_selector_loop b key [] result tr = (result, tr)"
| "ig_selector_loop b key (selector # rest) result tr =
     (case safe_find_element b CSS_SELECTOR selector tr of
        (None, tr1) \<Rightarrow> ig_selector_loop b key rest result tr1
      | (Some el, tr1) \<Rightarrow>
          (case try_assign b key el result tr1 of
             (Inl e, tr2) \<Rightarrow> ig_selector_loop b key rest result tr2
           | (Inr (Some result1), tr2) \<Rightarrow> (result1, tr2)
           | (Inr None, tr2) \<Rightarrow> ig_selector_loop b key rest result tr2))"

definition ig_profile_lookups :: "browser \<Rightarrow> result \<Rightarrow> event list \<Rightarrow> result \<times> event list" where
  "ig_profile_lookups b result tr =
     (let (result1, tr1) = ig_selector_loop b ''followers'' follower_selectors result tr
      in ig_selector_loop b ''following'' following_selectors result1 tr1)"

definition instagram_scrape_profile :: "browser \<Rightarrow> string \<Rightarrow> event list \<Rightarrow> (exn + result) \<times> event list" where
  "instagram_scrape_profile b url0 tr =
     (let url = format_url url0;
          result = ig_profile_init;
          (ok, tr1) = safe_get b url tr
      in if \<not> ok then (Inr result, tr1)
         else
          (let (result1, tr2) = ig_profile_lookups b result (sleep 5 tr1)
           in (Inr result1, tr2)))"

definition ig_post_init :: result where
  "ig_post_init =
     [(''platform'', ''Instagram''), (''type'', ''post''), (''likes'', ''Not available''),
      (''comments'', ''Not available'')]"

definition ig_like_selectors :: "string list" where
  "ig_like_selectors = [''span.like-count'', ''section._ae5m span'', ''span._aacl'']"

definition instagram_scrape_post :: "browser \<Rightarrow> string \<Rightarrow> event list \<Rightarrow> (exn + result) \<times> event list" where
  "instagram_scrape_post b url0 tr =
     (let url = format_url url0;
          result = ig_post_init;
          (ok, tr1) = safe_get b url tr
      in if \<not> ok then (Inr result, tr1)
         else
          (let (result1, tr2) = ig_selector_loop b ''likes'' ig_like_selectors result (sleep 5 tr1)
           in (Inr result1, tr2)))"

section \<open>\<open>TikTokScraper\<close> and \<open>FacebookScraper\<close>\<close>

text \<open>
  \<open>except TimeoutException: raise Exception(msg)\<close>: a timeout is replaced, every other
  exception passes through.
\<close>

definition on_timeout :: "string \<Rightarrow> exn \<Rightarrow> exn" where
  "on_timeout msg e = (if is_timeout e then Exception msg else e)"

text \<open>\<open>self.wait.until(EC.presence_of_element_located((how, v))).text\<close>\<close>

definition wait_text :: "browser \<Rightarrow> By \<Rightarrow> string \<Rightarrow> event list \<Rightarrow> (exn + string) \<times> event list" where
  "wait_text b how v tr =
     (case call_wait_presence b how v tr of
        (Inl e, tr1) \<Rightarrow> (Inl e, tr1)
      | (Inr el, tr1) \<Rightarrow> call_text b el tr1)"

text \<open>\<open>self.driver.find_element(how, v).text\<close>\<close>

definition find_text :: "browser \<Rightarrow> By \<Rightarrow> string \<Rightarrow> event list \<Rightarrow> (exn + string) \<times> event list" where
  "find_text b how v tr =
     (case call_find_element b how v tr of
        (Inl e, tr1) \<Rightarrow> (Inl e, tr1)
      | (Inr el, tr1) \<Rightarrow> call_text b el tr1)"

definition tiktok_scrape_profile :: "browser \<Rightarrow> string \<Rightarrow> event list \<Rightarrow> (exn + result) \<times> event list" where
  "tiktok_scrape_profile b url tr =
     (case call_get b url tr of
        (Some e, tr1) \<Rightarrow> (Inl e, tr1)
      | (None, tr1) \<Rightarrow>
          (case wait_text b CSS_SELECTOR ''strong[data-e2e='followers-count']'' tr1 of
             (Inl e, tr2) \<Rightarrow> (Inl (on_timeout ''Failed to load TikTok profile data'' e), tr2)
           | (Inr followers, tr2) \<Rightarrow>
               (case find_text b CSS_SELECTOR ''strong[data-e2e='following-count']'' tr2 of
                  (Inl e, tr3) \<Rightarrow> (Inl (on_timeout ''Failed to load TikTok profile data'' e), tr3)
                | (Inr following, tr3) \<Rightarrow>
                    (Inr [(''platform'', ''TikTok''), (''type'', ''profile''),
                          (''followers'', followers), (''following'', following)], tr3))))"

definition tiktok_scrape_post :: "browser \<Rightarrow> string \<Rightarrow> event list \<Rightarrow> (exn + result) \<times> event list" where
  "tiktok_scrape_post b url tr =
     (case call_get b url tr of
        (Some e, tr1) \<Rightarrow> (Inl e, tr1)
      | (None, tr1) \<Rightarrow>
          (case wait_text b CSS_SELECTOR ''strong[data-e2e='like-count']'' tr1 of
             (Inl e, tr2) \<Rightarrow> (Inl (on_timeout ''Failed to load TikTok video data'' e), tr2)
           | (Inr likes, tr2) \<Rightarrow>
               (Inr [(''platform'', ''TikTok''), (''type'', ''video''), (''likes'', likes)], tr2)))"

definition facebook_scrape_profile :: "browser \<Rightarrow> string \<Rightarrow> event list \<Rightarrow> (exn + result) \<times> event list" where
  "facebook_scrape_profile b url tr =
     (case call_get b url tr of
        (Some e, tr1) \<Rightarrow> (Inl e, tr1)
      | (None, tr1) \<Rightarrow>
          (case wait_text b CSS_SELECTOR ''div[data-key='followers']'' tr1 of
             (Inl e, tr2) \<Rightarrow> (Inl (on_timeout ''Failed to load Facebook profile data'' e), tr2)
           | (Inr followers, tr2) \<Rightarrow>
               (Inr [(''platform'', ''Facebook''), (''type'', ''profile''),
                     (''followers'', followers)], tr2)))"

definition facebook_scrape_post :: "browser \<Rightarrow> string \<Rightarrow> event list \<Rightarrow> (exn + result) \<times> event list" where
  "facebook_scrape_post b url tr =
     (case call_get b url tr of
        (Some e, tr1) \<Rightarrow> (Inl e, tr1)
      | (None, tr1) \<Rightarrow>
          (case wait_text b CSS_SELECTOR ''span.like-count'' tr1 of
             (Inl e, tr2) \<Rightarrow> (Inl (on_timeout ''Failed to load Facebook post data'' e), tr2)
           | (Inr likes, tr2) \<Rightarrow>
               (Inr [(''platform'', ''Facebook''), (''type'', ''post''), (''likes'', likes)], tr2)))"

section \<open>The four scrapers and their two operations\<close>

datatype platform = YouTube | Instagram | TikTok | Facebook

datatype operation = Profile | Post

fun scrape :: "platform \<Rightarrow> operation \<Rightarrow> browser \<Rightarrow> string \<Rightarrow> event list \<Rightarrow> (exn + result) \<times> event list" where
  "scrape YouTube Profile = youtube_scrape_profile"
| "scrape YouTube Post = youtube_scrape_post"
| "scrape Instagram Profile = instagram_scrape_profile"
| "scrape Instagram Post = instagram_scrape_post"
| "scrape TikTok Profile = tiktok_scrape_profile"
| "scrape TikTok Post = tiktok_scrape_post"
| "scrape Facebook Profile = facebook_scrape_profile"
| "scrape Facebook Post = facebook_scrape_post"

text \<open>The keys of the dictionary literal of each operation, in the order of the source.\<close>

fun declared_fields :: "platform \<Rightarrow> operation \<Rightarrow> string list" where
  "declared_fields YouTube Profile = [''platform'', ''type'', ''channel_name'', ''subscribers'']"
| "declared_fields YouTube Post = [''platform'', ''type'', ''title'', ''likes'', ''views'']"
| "declared_fields Instagram Profile = [''platform'', ''type'', ''followers'', ''following'', ''posts'']"
| "declared_fields Instagram Post = [''platform'', ''type'', ''likes'', ''comments'']"
| "declared_fields TikTok Profile = [''platform'', ''type'', ''followers'', ''following'']"
| "declared_fields TikTok Post = [''platform'', ''type'', ''likes'']"
| "declared_fields Facebook Profile = [''platform'', ''type'', ''followers'']"
| "declared_fields Facebook Post = [''platform'', ''type'', ''likes'']"

section \<open>Shapes of traces\<close>

text \<open>
  The trace of a retry loop is a sequence of failed attempts, each followed by the
  delay, and a last attempt. \<open>gets_answered\<close> says that the failures listed are the
  answers the browser gave, one after the other.
\<close>

definition failed_gets :: "string \<Rightarrow> exn list \<Rightarrow> event list" where
  "failed_gets url es = concat (map (\<lambda>e. [EvGet url (Some e), EvSleep retry_delay]) es)"

fun gets_answered :: "browser \<Rightarrow> string \<Rightarrow> event list \<Rightarrow> exn list \<Rightarrow> bool" where
  "gets_answered b url tr [] = True"
| "gets_answered b url tr (e # es) =
     (driver_get b tr url = Some e
      \<and> gets_answered b url (tr @ [EvGet url (Some e), EvSleep retry_delay]) es)"

text \<open>
  The outcome of a launch attempt, read from the answers of the browser. The attempt
  made at trace \<open>tr\<close> succeeds when the driver starts and the page-load timeout is set.
  It fails with cause \<open>e\<close>, leaving the events \<open>evs\<close>, when the driver does not start,
  or when it starts and setting the page-load timeout fails.
\<close>

definition attempt_succeeds :: "browser \<Rightarrow> event list \<Rightarrow> bool" where
  "attempt_succeeds b tr =
     (chrome b tr = None \<and> set_page_load_timeout b (tr @ [EvChrome None]) 30 = None)"

definition attempt_fails :: "browser \<Rightarrow> event list \<Rightarrow> event list \<Rightarrow> exn \<Rightarrow> bool" where
  "attempt_fails b tr evs e =
     ((chrome b tr = Some e \<and> evs = [EvChrome (Some e)])
      \<or> (chrome b tr = None \<and> set_page_load_timeout b (tr @ [EvChrome None]) 30 = Some e
           \<and> evs = [EvChrome None, EvSetPageLoadTimeout 30 (Some e)]))"

definition ok_attempt :: "event list" where
  "ok_attempt = [EvChrome None, EvSetPageLoadTimeout 30 None]"

fun is_launch :: "event \<Rightarrow> bool" where
  "is_launch (EvChrome r) = True"
| "is_launch ev = False"

definition count_launches :: "event list \<Rightarrow> nat" where
  "count_launches evs = length (filter is_launch evs)"

section \<open>Browsers for concrete runs\<close>

text \<open>
  \<open>dead_browser\<close> fails every call. The others are obtained from it by replacing single
  answers.
\<close>

definition dead_browser :: browser where
  "dead_browser =
     \<lparr>chrome = (\<lambda>tr. Some (WebDriverException ''chrome not reachable'')),
      set_page_load_timeout = (\<lambda>tr n. None),
      driver_get = (\<lambda>tr url. Some (WebDriverException ''net::ERR_NAME_NOT_RESOLVED'')),
      find_element = (\<lambda>tr how v. Inl (NoSuchElementException v)),
      wait_presence = (\<lambda>tr how v. Inl (TimeoutException v)),
      element_text = (\<lambda>tr el. Inl (WebDriverException ''stale element reference'')),
      element_attribute = (\<lambda>tr el name. Inl (WebDriverException ''stale element reference'')),
      execute_script = (\<lambda>tr script. Inl (WebDriverException ''javascript error'')),
      driver_title = (\<lambda>tr. Inl (WebDriverException ''no such window'')),
      driver_quit = (\<lambda>tr. Some (WebDriverException ''invalid session id''))\<rparr>"

text \<open>The page loads at the third attempt.\<close>

definition slow_browser :: browser where
  "slow_browser =
     dead_browser\<lparr>driver_get :=
       (\<lambda>tr url. if length tr < 4 then Some (WebDriverException ''timeout'') else None)\<rparr>"

text \<open>Launch and navigation succeed, every lookup fails.\<close>

definition blank_browser :: browser where
  "blank_browser = dead_browser\<lparr>chrome := (\<lambda>tr. None), driver_get := (\<lambda>tr url. None)\<rparr>"

text \<open>The driver starts, and setting the page-load timeout fails, every time.\<close>

definition no_timeout_browser :: browser where
  "no_timeout_browser =
     blank_browser\<lparr>set_page_load_timeout :=
       (\<lambda>tr n. Some (WebDriverException ''session not created''))\<rparr>"

section \<open>The resolver of the specification\<close>









section \<open>The lookups of a field\<close>

text \<open>
  For each operation and field, the locators the source looks up for it (with
  \<open>find_element\<close> or with the wait) and the scripts it runs for it. A field without an
  entry is never looked up.
\<close>

definition field_locators :: "platform \<Rightarrow> operation \<Rightarrow> string \<Rightarrow> (By \<times> string) list" where
  "field_locators p op k =
     (case (p, op) of
        (YouTube, Profile) \<Rightarrow>
          (if k = ''channel_name'' then
             [(XPATH, ''//yt-formatted-string[contains(@class, 'ytd-channel-name')]''),
              (CSS_SELECTOR, ''ytd-channel-name h1''),
              (XPATH, ''//meta[@property='og:title']'')]
           else if k = ''subscribers'' then
             [(ID, ''subscriber-count''),
              (XPATH, ''//yt-formatted-string[@id='subscriber-count']''),
              (CSS_SELECTOR, ''#metadata-container #subscriber-count'')]
           else [])
      | (YouTube, Post) \<Rightarrow>
          (if k = ''title'' then
             map (Pair CSS_SELECTOR) title_selectors
             @ [(XPATH, ''//h1[contains(@class, 'ytd-video-primary-info-renderer')]//yt-formatted-string'')]
           else if k = ''likes'' then map (Pair CSS_SELECTOR) yt_like_selectors
           else [])
      | (Instagram, Profile) \<Rightarrow>
          (if k = ''followers'' then map (Pair CSS_SELECTOR) follower_selectors
           else if k = ''following'' then map (Pair CSS_SELECTOR) following_selectors
           else [])
      | (Instagram, Post) \<Rightarrow>
          (if k = ''likes'' then map (Pair CSS_SELECTOR) ig_like_selectors else [])
      | (TikTok, Profile) \<Rightarrow>
          (if k = ''followers'' then [(CSS_SELECTOR, ''strong[data-e2e='followers-count']'')]
           else if k = ''following'' then [(CSS_SELECTOR, ''strong[data-e2e='following-count']'')]
           else [])
      | (TikTok, Post) \<Rightarrow>
          (if k = ''likes'' then [(CSS_SELECTOR, ''strong[data-e2e='like-count']'')] else [])
      | (Facebook, Profile) \<Rightarrow>
          (if k = ''followers'' then [(CSS_SELECTOR, ''div[data-key='followers']'')] else [])
      | (Facebook, Post) \<Rightarrow>
          (if k = ''likes'' then [(CSS_SELECTOR, ''span.like-count'')] else []))"

definition field_scripts :: "platform \<Rightarrow> operation \<Rightarrow> string \<Rightarrow> string list" where
  "field_scripts p op k =
     (case (p, op) of
        (YouTube, Profile) \<Rightarrow>
          (if k = ''channel_name''
           then [''return document.querySelector('ytd-channel-name').innerText'']
           else if k = ''subscribers''
           then [''return document.querySelector('#subscriber-count').innerText'']
           else [])
      | _ \<Rightarrow> [])"

text \<open>Every lookup of the locators and every run of the scripts raises.\<close>

definition lookups_fail :: "browser \<Rightarrow> (By \<times> string) list \<Rightarrow> string list \<Rightarrow> bool" where
  "lookups_fail b locators scripts =
     ((\<forall>t. \<forall>l \<in> set locators. isl (find_element b t (fst l) (snd l))
                                \<and> isl (wait_presence b t (fst l) (snd l)))
      \<and> (\<forall>t. \<forall>s \<in> set scripts. isl (execute_script b t s)))"

text \<open>
  \<open>writes blocked key r r'\<close>: \<open>r'\<close> is \<open>r\<close>, or \<open>r\<close> after an assignment to \<open>key\<close>, which
  is excluded when \<open>blocked\<close> holds.
\<close>

definition writes :: "bool \<Rightarrow> string \<Rightarrow> result \<Rightarrow> result \<Rightarrow> bool" where
  "writes blocked key r r' = (r' = r \<or> (\<not> blocked \<and> (\<exists>v. r' = dict_set key v r)))"

text \<open>Every lookup of the field \<open>k\<close> of an operation raises.\<close>

definition field_fails :: "browser \<Rightarrow> platform \<Rightarrow> operation \<Rightarrow> string \<Rightarrow> bool" where
  "field_fails b p op k = lookups_fail b (field_locators p op k) (field_scripts p op k)"

text \<open>
  \<open>absorbed b p op r0 r\<close>: the result \<open>r\<close> has the keys of the initial record \<open>r0\<close>, in the
  same order, and every field whose lookups all fail in the browser \<open>b\<close> has the value it
  has in \<open>r0\<close>.
\<close>

definition absorbed :: "browser \<Rightarrow> platform \<Rightarrow> operation \<Rightarrow> result \<Rightarrow> result \<Rightarrow> bool" where
  "absorbed b p op r0 r =
     (keys r = keys r0 \<and> (\<forall>k. field_fails b p op k \<longrightarrow> map_of r k = map_of r0 k))"

text \<open>
  The page loads; the follower count is found after the wait; every other lookup fails.
\<close>

definition followers_only_browser :: browser where
  "followers_only_browser =
     blank_browser\<lparr>wait_presence :=
       (\<lambda>tr how v. if v = ''li:nth-child(2) span span''
                    then Inr (WebElement 1) else Inl (TimeoutException v)),
       element_text := (\<lambda>tr el. Inr ''1,234'')\<rparr>"

section \<open>Properties of the pure functions\<close>

lemma startswith_iff: "startswith s p \<longleftrightarrow> (\<exists>r. s = p @ r)"
  by (induction s p rule: startswith.induct) auto

lemma rstrip_decomp: "\<exists>n. s = rstrip [x] s @ replicate n x"
proof (induction s)
  case Nil
  then show ?case by (simp add: rstrip_def)
next
  case (Cons c cs)
  then obtain n where n: "cs = rstrip [x] cs @ replicate n x" by blast
  show ?case
  proof (cases "rstrip [x] cs = [] \<and> c = x")
    case True
    then have "c # cs = rstrip [x] (c # cs) @ replicate (Suc n) x"
      using n by (simp add: Let_def rstrip_def)
    then show ?thesis by blast
  next
    case False
    then have "c # cs = rstrip [x] (c # cs) @ replicate n x"
      using n by (auto simp add: Let_def rstrip_def)
    then show ?thesis by blast
  qed
qed

lemma rstrip_last: "rstrip [x] s \<noteq> [] \<Longrightarrow> last (rstrip [x] s) \<noteq> x"
  by (induction s) (auto simp add: Let_def rstrip_def split: if_splits)

lemma rstrip_http: "rstrip ''/'' (''http://'' @ r) \<noteq> []"
  by (simp add: Let_def rstrip_def)

lemma rstrip_https: "rstrip ''/'' (''https://'' @ r) \<noteq> []"
  by (simp add: Let_def rstrip_def)

text \<open>
  C10. \<open>_format_url\<close> returns the URL itself when it starts with \<open>http://\<close> or
  \<open>https://\<close>, and \<open>https://\<close> followed by the URL otherwise, in both cases with
  the trailing \<open>/\<close> characters stripped: the input is the result followed by
  slashes only, and the result (never empty) does not end with \<open>/\<close>.
\<close>

theorem format_url_spec:
  "format_url url =
     (if (\<exists>r. url = ''http://'' @ r) \<or> (\<exists>r. url = ''https://'' @ r)
      then rstrip ''/'' url else rstrip ''/'' (''https://'' @ url))
   \<and> (\<exists>n. (if (\<exists>r. url = ''http://'' @ r) \<or> (\<exists>r. url = ''https://'' @ r)
            then url else ''https://'' @ url) = format_url url @ replicate n (CHR ''/''))
   \<and> format_url url \<noteq> [] \<and> last (format_url url) \<noteq> CHR ''/''"
proof -
  let ?c = "(\<exists>r. url = ''http://'' @ r) \<or> (\<exists>r. url = ''https://'' @ r)"
  let ?u = "if ?c then url else ''https://'' @ url"
  have f: "format_url url = rstrip ''/'' ?u"
    unfolding format_url_def Let_def startswith_iff by simp
  have ne: "rstrip ''/'' ?u \<noteq> []"
    using rstrip_http rstrip_https by (cases ?c) auto
  have d: "\<exists>n. ?u = rstrip ''/'' ?u @ replicate n (CHR ''/'')"
    by (rule rstrip_decomp)
  show ?thesis
    using f ne d rstrip_last[OF ne] by (cases ?c) auto
qed

theorem format_url_spec_witness:
  "format_url ''youtube.com/@example//'' = ''https://youtube.com/@example''
   \<and> format_url ''http://x.org/'' = ''http://x.org''
   \<and> last (format_url ''https:///'') \<noteq> CHR ''/''"
  using format_url_spec [of "''https:///''"]
  by (simp add: format_url_def rstrip_def Let_def)

lemmas matcher_defs = re_search_ascii_def escape_def is_word_def is_digit_def

lemma match_loop_none:
  "\<forall>kp \<in> set ps. \<not> re_search (snd kp) link \<Longrightarrow> match_loop re_search ps link = (False, ''invalid'')"
  by (induction ps) auto

lemma match_loop_first:
  "\<exists>kp \<in> set ps. re_search (snd kp) link \<Longrightarrow>
   \<exists>i < length ps. match_loop re_search ps link = (True, fst (ps ! i))
      \<and> re_search (snd (ps ! i)) link \<and> (\<forall>j < i. \<not> re_search (snd (ps ! j)) link)"
proof (induction ps)
  case Nil
  then show ?case by simp
next
  case (Cons a ps)
  obtain k p where a: "a = (k, p)" by (cases a)
  show ?case
  proof (cases "re_search p link")
    case True
    then have "match_loop re_search (a # ps) link = (True, fst ((a # ps) ! 0))
      \<and> re_search (snd ((a # ps) ! 0)) link \<and> (\<forall>j < 0. \<not> re_search (snd ((a # ps) ! j)) link)"
      using a by simp
    then show ?thesis by blast
  next
    case False
    with Cons.prems a have "\<exists>kp \<in> set ps. re_search (snd kp) link" by auto
    from Cons.IH[OF this] obtain i where i: "i < length ps"
      "match_loop re_search ps link = (True, fst (ps ! i))"
      "re_search (snd (ps ! i)) link" "\<forall>j < i. \<not> re_search (snd (ps ! j)) link" by blast
    have "\<forall>j < Suc i. \<not> re_search (snd ((a # ps) ! j)) link"
    proof (intro allI impI)
      fix j assume "j < Suc i"
      then show "\<not> re_search (snd ((a # ps) ! j)) link"
        using i(4) False a by (cases j) auto
    qed
    then have "Suc i < length (a # ps) \<and> match_loop re_search (a # ps) link = (True, fst ((a # ps) ! Suc i))
      \<and> re_search (snd ((a # ps) ! Suc i)) link \<and> (\<forall>j < Suc i. \<not> re_search (snd ((a # ps) ! j)) link)"
      using i False a by simp
    then show ?thesis by blast
  qed
qed

lemma platform_lookup:
  "platform \<in> {''YouTube'', ''Instagram'', ''TikTok'', ''Facebook''} \<Longrightarrow>
   \<exists>ps. map_of platform_patterns platform = Some ps \<and> patterns_of platform = ps \<and> length ps = 2"
  by (auto simp add: platform_patterns_def patterns_of_def)

text \<open>
  C1. For each of the four declared platforms and every URL that matches at least one
  pattern of the platform's table, \<open>validate_social_link\<close> returns \<open>True\<close> with
  the link kind at the first position of the table, in declared order, whose pattern
  matches the URL.
\<close>

theorem validate_first_match:
  assumes "platform \<in> {''YouTube'', ''Instagram'', ''TikTok'', ''Facebook''}"
    and "map_of platform_patterns platform = Some ps"
    and "\<exists>kp \<in> set ps. re_search (snd kp) url"
  shows "\<exists>i < length ps. validate_social_link re_search platform url = (True, fst (ps ! i))
      \<and> re_search (snd (ps ! i)) url \<and> (\<forall>j < i. \<not> re_search (snd (ps ! j)) url)"
proof -
  have "patterns_of platform = ps" using assms(2) by (simp add: patterns_of_def)
  then show ?thesis
    using match_loop_first[of ps re_search url] assms(3) by (simp add: validate_social_link_def)
qed

theorem validate_first_match_witness:
  "validate_social_link re_search_ascii ''YouTube'' ''https://youtube.com/watch?v=abc123''
     = (True, ''video'')"
proof -
  let ?ps = "[(''channel'', ''youtube'' @ BSL # ''.com/@?['' @ BSL # ''w-]+/?$''),
              (''video'', ''youtube'' @ BSL # ''.com/watch'' @ BSL # ''?v=['' @ BSL # ''w-]+'')]"
  let ?url = "''https://youtube.com/watch?v=abc123''"
  have h1: "''YouTube'' \<in> {''YouTube'', ''Instagram'', ''TikTok'', ''Facebook''}" by simp
  have h2: "map_of platform_patterns ''YouTube'' = Some ?ps"
    by (simp add: platform_patterns_def)
  have n0: "\<not> re_search_ascii (snd (?ps ! 0)) ?url"
    by (simp add: matcher_defs)
  have y1: "re_search_ascii (snd (?ps ! 1)) ?url"
    by (simp add: matcher_defs)
  have h3: "\<exists>kp \<in> set ?ps. re_search_ascii (snd kp) ?url"
    using y1 by simp
  from validate_first_match [of "''YouTube''" ?ps re_search_ascii ?url] h1 h2 h3 obtain i where
    i: "i < length ?ps" "validate_social_link re_search_ascii ''YouTube'' ?url = (True, fst (?ps ! i))"
       "re_search_ascii (snd (?ps ! i)) ?url"
    by blast
  have "i \<noteq> 0" using i(3) n0 by (cases "i = 0") simp_all
  with i(1) have "i = 1" by simp
  with i(2) show ?thesis by simp
qed

text \<open>
  C2. When the URL matches none of the patterns declared for the platform, or the
  platform has no entry in the table, \<open>validate_social_link\<close> returns
  \<open>(False, "invalid")\<close>.
\<close>

theorem validate_no_match:
  assumes "map_of platform_patterns platform = None
           \<or> (\<exists>ps. map_of platform_patterns platform = Some ps \<and> (\<forall>kp \<in> set ps. \<not> re_search (snd kp) url))"
  shows "validate_social_link re_search platform url = (False, ''invalid'')"
  using assms
  by (auto simp add: validate_social_link_def patterns_of_def match_loop_none)

theorem validate_no_match_witness:
  "validate_social_link re_search_ascii ''TikTok'' ''not-a-url'' = (False, ''invalid'')
   \<and> validate_social_link re_search_ascii ''Twitter'' ''https://youtube.com/@example'' = (False, ''invalid'')"
proof -
  have a: "\<exists>ps. map_of platform_patterns ''TikTok'' = Some ps
              \<and> (\<forall>kp \<in> set ps. \<not> re_search_ascii (snd kp) ''not-a-url'')"
    by (simp add: platform_patterns_def matcher_defs)
  have b: "map_of platform_patterns ''Twitter'' = None"
    by (simp add: platform_patterns_def)
  show ?thesis
    using validate_no_match [of "''TikTok''" re_search_ascii "''not-a-url''"] a
      validate_no_match [of "''Twitter''" re_search_ascii "''https://youtube.com/@example''"] b
    by blast
qed
section \<open>Navigation, start and teardown\<close>

lemma failed_gets_Cons:
  "failed_gets url (e # es) = [EvGet url (Some e), EvSleep retry_delay] @ failed_gets url es"
  by (simp add: failed_gets_def)

lemma failed_gets_Nil: "failed_gets url [] = []"
  by (simp add: failed_gets_def)

lemma safe_get_loop_shape:
  "k \<le> nat n \<Longrightarrow>
   \<exists>es. gets_answered b url tr es \<and>
     ((safe_get_loop b url n (map int [k..<nat n]) tr
          = (True, tr @ failed_gets url es @ [EvGet url None])
        \<and> driver_get b (tr @ failed_gets url es) url = None \<and> k + length es < nat n)
      \<or> (\<exists>e. safe_get_loop b url n (map int [k..<nat n]) tr
             = (False, tr @ failed_gets url es @ [EvGet url (Some e)])
           \<and> driver_get b (tr @ failed_gets url es) url = Some e \<and> k + length es + 1 = nat n)
      \<or> (safe_get_loop b url n (map int [k..<nat n]) tr = (False, tr) \<and> k = nat n \<and> es = []))"
proof (induction "nat n - k" arbitrary: k tr)
  case 0
  then have "k = nat n" by simp
  then have "gets_answered b url tr [] \<and>
      safe_get_loop b url n (map int [k..<nat n]) tr = (False, tr) \<and> k = nat n"
    by simp
  then show ?case by blast
next
  case (Suc d)
  then have lt: "k < nat n" by simp
  then have unfold: "map int [k..<nat n] = int k # map int [Suc k..<nat n]"
    by (simp add: upt_conv_Cons)
  show ?case
  proof (cases "driver_get b tr url")
    case None
    then have "gets_answered b url tr [] \<and>
        safe_get_loop b url n (map int [k..<nat n]) tr
          = (True, tr @ failed_gets url [] @ [EvGet url None])
        \<and> driver_get b (tr @ failed_gets url []) url = None \<and> k + length ([]::exn list) < nat n"
      using lt unfold by (auto simp add: call_get_def failed_gets_Nil Let_def)
    then show ?thesis by blast
  next
    case (Some e)
    show ?thesis
    proof (cases "int k = n - 1")
      case True
      then have "gets_answered b url tr [] \<and>
          safe_get_loop b url n (map int [k..<nat n]) tr
            = (False, tr @ failed_gets url [] @ [EvGet url (Some e)])
          \<and> driver_get b (tr @ failed_gets url []) url = Some e
          \<and> k + length ([]::exn list) + 1 = nat n"
        using lt unfold Some by (auto simp add: call_get_def failed_gets_Nil Let_def)
      then show ?thesis by blast
    next
      case False
      let ?tr = "tr @ [EvGet url (Some e), EvSleep retry_delay]"
      have step: "safe_get_loop b url n (map int [k..<nat n]) tr
                  = safe_get_loop b url n (map int [Suc k..<nat n]) ?tr"
        using unfold Some False by (simp add: call_get_def sleep_def Let_def)
      have d: "d = nat n - Suc k" using Suc.hyps(2) by simp
      have le: "Suc k \<le> nat n" using lt by simp
      from Suc.hyps(1)[OF d le, of ?tr] obtain es where
        ans: "gets_answered b url ?tr es" and
        alt: "(safe_get_loop b url n (map int [Suc k..<nat n]) ?tr
                = (True, ?tr @ failed_gets url es @ [EvGet url None])
              \<and> driver_get b (?tr @ failed_gets url es) url = None \<and> Suc k + length es < nat n)
            \<or> (\<exists>e'. safe_get_loop b url n (map int [Suc k..<nat n]) ?tr
                   = (False, ?tr @ failed_gets url es @ [EvGet url (Some e')])
                 \<and> driver_get b (?tr @ failed_gets url es) url = Some e'
                 \<and> Suc k + length es + 1 = nat n)
            \<or> (safe_get_loop b url n (map int [Suc k..<nat n]) ?tr = (False, ?tr)
                 \<and> Suc k = nat n \<and> es = [])"
        by blast
      have notlast: "Suc k \<noteq> nat n" using False lt by linarith
      have ans': "gets_answered b url tr (e # es)" using ans Some by simp
      have app: "?tr @ failed_gets url es = tr @ failed_gets url (e # es)"
        by (simp add: failed_gets_Cons)
      from alt notlast have
        "(safe_get_loop b url n (map int [k..<nat n]) tr
            = (True, tr @ failed_gets url (e # es) @ [EvGet url None])
          \<and> driver_get b (tr @ failed_gets url (e # es)) url = None
          \<and> k + length (e # es) < nat n)
        \<or> (\<exists>e'. safe_get_loop b url n (map int [k..<nat n]) tr
               = (False, tr @ failed_gets url (e # es) @ [EvGet url (Some e')])
             \<and> driver_get b (tr @ failed_gets url (e # es)) url = Some e'
             \<and> k + length (e # es) + 1 = nat n)"
        unfolding step by (auto simp add: failed_gets_Cons)
      with ans' show ?thesis by blast
    qed
  qed
qed

text \<open>
  C7. \<open>_safe_get\<close> returns a boolean and has no exceptional outcome. Its trace is a
  sequence of failed loads, each followed by the delay, and a last load: it returns
  \<open>True\<close> at the first load the browser answers without an exception, after fewer than
  \<open>n\<close> failures, and \<open>False\<close> when the \<open>n\<close>-th load fails (with no delay after it) or
  when \<open>n\<close> is not positive. The scrapers call it with \<open>n = 3\<close>.
\<close>

theorem safe_get_never_raises:
  "\<exists>es. gets_answered b url tr es \<and>
     ((safe_get_n b url n tr = (True, tr @ failed_gets url es @ [EvGet url None])
        \<and> driver_get b (tr @ failed_gets url es) url = None \<and> int (length es) < n)
      \<or> (\<exists>e. safe_get_n b url n tr = (False, tr @ failed_gets url es @ [EvGet url (Some e)])
           \<and> driver_get b (tr @ failed_gets url es) url = Some e \<and> int (length es) + 1 = n)
      \<or> (safe_get_n b url n tr = (False, tr) \<and> n \<le> 0 \<and> es = []))"
proof -
  from safe_get_loop_shape[of 0 n b url tr] obtain es where
    ans: "gets_answered b url tr es" and
    alt: "(safe_get_loop b url n (map int [0..<nat n]) tr
              = (True, tr @ failed_gets url es @ [EvGet url None])
            \<and> driver_get b (tr @ failed_gets url es) url = None \<and> 0 + length es < nat n)
          \<or> (\<exists>e. safe_get_loop b url n (map int [0..<nat n]) tr
                 = (False, tr @ failed_gets url es @ [EvGet url (Some e)])
               \<and> driver_get b (tr @ failed_gets url es) url = Some e \<and> 0 + length es + 1 = nat n)
          \<or> (safe_get_loop b url n (map int [0..<nat n]) tr = (False, tr) \<and> 0 = nat n \<and> es = [])"
    by blast
  from alt have
    "(safe_get_n b url n tr = (True, tr @ failed_gets url es @ [EvGet url None])
        \<and> driver_get b (tr @ failed_gets url es) url = None \<and> int (length es) < n)
      \<or> (\<exists>e. safe_get_n b url n tr = (False, tr @ failed_gets url es @ [EvGet url (Some e)])
           \<and> driver_get b (tr @ failed_gets url es) url = Some e \<and> int (length es) + 1 = n)
      \<or> (safe_get_n b url n tr = (False, tr) \<and> n \<le> 0 \<and> es = [])"
    unfolding safe_get_n_def range_list_def by (elim disjE) auto
  with ans show ?thesis by blast
qed

theorem safe_get_never_raises_witness:
  "safe_get slow_browser ''https://youtube.com/@example'' []
     = (True, [EvGet ''https://youtube.com/@example'' (Some (WebDriverException ''timeout'')),
               EvSleep 2,
               EvGet ''https://youtube.com/@example'' (Some (WebDriverException ''timeout'')),
               EvSleep 2,
               EvGet ''https://youtube.com/@example'' None])
   \<and> safe_get dead_browser ''x'' []
     = (False, [EvGet ''x'' (Some (WebDriverException ''net::ERR_NAME_NOT_RESOLVED'')), EvSleep 2,
                EvGet ''x'' (Some (WebDriverException ''net::ERR_NAME_NOT_RESOLVED'')), EvSleep 2,
                EvGet ''x'' (Some (WebDriverException ''net::ERR_NAME_NOT_RESOLVED''))])"
  using safe_get_never_raises [of slow_browser "''https://youtube.com/@example''" "[]" 3]
  by (simp add: safe_get_def safe_get_n_def range_list_def upt_rec call_get_def Let_def
      slow_browser_def dead_browser_def sleep_def retry_delay_def)

subsection \<open>Start\<close>

lemma attempt_outcome:
  "attempt_succeeds b tr \<or> (\<exists>evs e. attempt_fails b tr evs e)"
  by (cases "chrome b tr"; cases "set_page_load_timeout b (tr @ [EvChrome None]) 30")
     (simp_all add: attempt_succeeds_def attempt_fails_def)

lemma launch_attempt_succeeds:
  "attempt_succeeds b tr \<Longrightarrow>
   launch_attempt b s tr = (None, s\<lparr>driver := IsDriver, wait := True\<rparr>, tr @ ok_attempt)"
  by (simp add: attempt_succeeds_def launch_attempt_def Let_def ok_attempt_def)

lemma launch_attempt_fails:
  "attempt_fails b tr evs e \<Longrightarrow> \<exists>s'. launch_attempt b s tr = (Some e, s', tr @ evs)"
  by (auto simp add: attempt_fails_def launch_attempt_def Let_def)

lemma attempt_fails_count: "attempt_fails b tr evs e \<Longrightarrow> count_launches evs = 1"
  by (auto simp add: attempt_fails_def count_launches_def)

lemma range3: "[0..<max_retries] = [0, 1, 2]"
  by (simp add: max_retries_def upt_rec)

lemma base_init_first:
  assumes "attempt_succeeds b tr"
  shows "base_init b tr = (None, \<lparr>driver = IsDriver, wait = True\<rparr>, tr @ ok_attempt)"
  unfolding base_init_def range3
  by (simp add: launch_attempt_succeeds[OF assms])

lemma base_init_second:
  assumes "attempt_fails b tr a1 e1" "attempt_succeeds b (tr @ a1 @ [EvSleep retry_delay])"
  shows "base_init b tr
       = (None, \<lparr>driver = IsDriver, wait = True\<rparr>, tr @ a1 @ [EvSleep retry_delay] @ ok_attempt)"
proof -
  from launch_attempt_fails[OF assms(1)] obtain s1 where
    l1: "launch_attempt b \<lparr>driver = IsNone, wait = False\<rparr> tr = (Some e1, s1, tr @ a1)" by blast
  have l2: "launch_attempt b s1 ((tr @ a1) @ [EvSleep retry_delay])
        = (None, s1\<lparr>driver := IsDriver, wait := True\<rparr>, ((tr @ a1) @ [EvSleep retry_delay]) @ ok_attempt)"
    using launch_attempt_succeeds[of b "(tr @ a1) @ [EvSleep retry_delay]" s1] assms(2) by simp
  show ?thesis
    unfolding base_init_def range3 using l1 l2
    by (simp add: max_retries_def sleep_def)
qed

lemma base_init_third:
  assumes "attempt_fails b tr a1 e1"
    "attempt_fails b (tr @ a1 @ [EvSleep retry_delay]) a2 e2"
    "attempt_succeeds b (tr @ a1 @ [EvSleep retry_delay] @ a2 @ [EvSleep retry_delay])"
  shows "base_init b tr
       = (None, \<lparr>driver = IsDriver, wait = True\<rparr>,
          tr @ a1 @ [EvSleep retry_delay] @ a2 @ [EvSleep retry_delay] @ ok_attempt)"
proof -
  let ?t1 = "(tr @ a1) @ [EvSleep retry_delay]"
  let ?t2 = "(?t1 @ a2) @ [EvSleep retry_delay]"
  from launch_attempt_fails[OF assms(1)] obtain s1 where
    l1: "launch_attempt b \<lparr>driver = IsNone, wait = False\<rparr> tr = (Some e1, s1, tr @ a1)" by blast
  from launch_attempt_fails[of b ?t1 a2 e2 s1] assms(2) obtain s2 where
    l2: "launch_attempt b s1 ?t1 = (Some e2, s2, ?t1 @ a2)" by auto
  have l3: "launch_attempt b s2 ?t2 = (None, s2\<lparr>driver := IsDriver, wait := True\<rparr>, ?t2 @ ok_attempt)"
    using launch_attempt_succeeds[of b ?t2 s2] assms(3) by simp
  show ?thesis
    unfolding base_init_def range3 using l1 l2 l3
    by (simp add: max_retries_def sleep_def)
qed

lemma base_init_exhausted:
  assumes "attempt_fails b tr a1 e1"
    "attempt_fails b (tr @ a1 @ [EvSleep retry_delay]) a2 e2"
    "attempt_fails b (tr @ a1 @ [EvSleep retry_delay] @ a2 @ [EvSleep retry_delay]) a3 e3"
  shows "\<exists>s'. base_init b tr
       = (Some (launch_error e3), s',
          tr @ a1 @ [EvSleep retry_delay] @ a2 @ [EvSleep retry_delay] @ a3)"
proof -
  let ?t1 = "(tr @ a1) @ [EvSleep retry_delay]"
  let ?t2 = "(?t1 @ a2) @ [EvSleep retry_delay]"
  from launch_attempt_fails[OF assms(1)] obtain s1 where
    l1: "launch_attempt b \<lparr>driver = IsNone, wait = False\<rparr> tr = (Some e1, s1, tr @ a1)" by blast
  from launch_attempt_fails[of b ?t1 a2 e2 s1] assms(2) obtain s2 where
    l2: "launch_attempt b s1 ?t1 = (Some e2, s2, ?t1 @ a2)" by auto
  from launch_attempt_fails[of b ?t2 a3 e3 s2] assms(3) obtain s3 where
    l3: "launch_attempt b s2 ?t2 = (Some e3, s3, ?t2 @ a3)" by auto
  have "base_init b tr
       = (Some (launch_error e3), s3,
          tr @ a1 @ [EvSleep retry_delay] @ a2 @ [EvSleep retry_delay] @ a3)"
    unfolding base_init_def range3 using l1 l2 l3
    by (simp add: max_retries_def sleep_def)
  then show ?thesis by blast
qed

text \<open>The complete case analysis of the start: which attempt was the first to succeed.\<close>

lemma base_init_cases:
  "(attempt_succeeds b tr
      \<and> base_init b tr = (None, \<lparr>driver = IsDriver, wait = True\<rparr>, tr @ ok_attempt))
   \<or> (\<exists>a1 e1. attempt_fails b tr a1 e1
          \<and> attempt_succeeds b (tr @ a1 @ [EvSleep retry_delay])
          \<and> base_init b tr
              = (None, \<lparr>driver = IsDriver, wait = True\<rparr>,
                 tr @ a1 @ [EvSleep retry_delay] @ ok_attempt))
   \<or> (\<exists>a1 e1 a2 e2. attempt_fails b tr a1 e1
          \<and> attempt_fails b (tr @ a1 @ [EvSleep retry_delay]) a2 e2
          \<and> attempt_succeeds b (tr @ a1 @ [EvSleep retry_delay] @ a2 @ [EvSleep retry_delay])
          \<and> base_init b tr
              = (None, \<lparr>driver = IsDriver, wait = True\<rparr>,
                 tr @ a1 @ [EvSleep retry_delay] @ a2 @ [EvSleep retry_delay] @ ok_attempt))
   \<or> (\<exists>s' a1 e1 a2 e2 a3 e3. attempt_fails b tr a1 e1
          \<and> attempt_fails b (tr @ a1 @ [EvSleep retry_delay]) a2 e2
          \<and> attempt_fails b (tr @ a1 @ [EvSleep retry_delay] @ a2 @ [EvSleep retry_delay]) a3 e3
          \<and> base_init b tr
              = (Some (launch_error e3), s',
                 tr @ a1 @ [EvSleep retry_delay] @ a2 @ [EvSleep retry_delay] @ a3))"
proof (cases "attempt_succeeds b tr")
  case True
  with base_init_first[OF True] show ?thesis by blast
next
  case False
  with attempt_outcome[of b tr] obtain a1 e1 where f1: "attempt_fails b tr a1 e1" by blast
  let ?t1 = "tr @ a1 @ [EvSleep retry_delay]"
  show ?thesis
  proof (cases "attempt_succeeds b ?t1")
    case True
    with base_init_second[OF f1 True] f1 show ?thesis by blast
  next
    case False
    with attempt_outcome[of b ?t1] obtain a2 e2 where f2: "attempt_fails b ?t1 a2 e2" by blast
    let ?t2 = "tr @ a1 @ [EvSleep retry_delay] @ a2 @ [EvSleep retry_delay]"
    show ?thesis
    proof (cases "attempt_succeeds b ?t2")
      case True
      with base_init_third[OF f1 f2 True] f1 f2 show ?thesis by blast
    next
      case False
      with attempt_outcome[of b ?t2] obtain a3 e3 where f3: "attempt_fails b ?t2 a3 e3" by blast
      from base_init_exhausted[OF f1 f2 f3] f1 f2 f3 show ?thesis by blast
    qed
  qed
qed

lemma base_init_count:
  "\<exists>evs. snd (snd (base_init b tr)) = tr @ evs \<and> count_launches evs \<le> max_retries"
proof -
  have m: "max_retries = 3" by (simp add: max_retries_def)
  have ok: "count_launches ok_attempt = 1" by (simp add: count_launches_def ok_attempt_def)
  have app: "\<And>xs ys. count_launches (xs @ ys) = count_launches xs + count_launches ys"
    by (simp add: count_launches_def)
  have sl: "\<And>n. count_launches [EvSleep n] = 0" by (simp add: count_launches_def)
  from base_init_cases[of b tr] show ?thesis
  proof (elim disjE exE conjE)
    assume "base_init b tr = (None, \<lparr>driver = IsDriver, wait = True\<rparr>, tr @ ok_attempt)"
    then have "snd (snd (base_init b tr)) = tr @ ok_attempt \<and> count_launches ok_attempt \<le> max_retries"
      by (simp add: ok m)
    then show ?thesis by blast
  next
    fix a1 e1
    assume "base_init b tr
              = (None, \<lparr>driver = IsDriver, wait = True\<rparr>,
                 tr @ a1 @ [EvSleep retry_delay] @ ok_attempt)"
      "attempt_fails b tr a1 e1"
    then have "snd (snd (base_init b tr)) = tr @ (a1 @ [EvSleep retry_delay] @ ok_attempt)
        \<and> count_launches (a1 @ [EvSleep retry_delay] @ ok_attempt) \<le> max_retries"
      using attempt_fails_count[of b tr a1 e1] by (simp only: app sl ok m snd_conv) simp
    then show ?thesis by blast
  next
    fix a1 e1 a2 e2
    assume "base_init b tr
              = (None, \<lparr>driver = IsDriver, wait = True\<rparr>,
                 tr @ a1 @ [EvSleep retry_delay] @ a2 @ [EvSleep retry_delay] @ ok_attempt)"
      "attempt_fails b tr a1 e1" "attempt_fails b (tr @ a1 @ [EvSleep retry_delay]) a2 e2"
    then have "snd (snd (base_init b tr))
          = tr @ (a1 @ [EvSleep retry_delay] @ a2 @ [EvSleep retry_delay] @ ok_attempt)
        \<and> count_launches (a1 @ [EvSleep retry_delay] @ a2 @ [EvSleep retry_delay] @ ok_attempt)
            \<le> max_retries"
      using attempt_fails_count[of b tr a1 e1]
        attempt_fails_count[of b "tr @ a1 @ [EvSleep retry_delay]" a2 e2]
      by (simp only: app sl ok m snd_conv) simp
    then show ?thesis by blast
  next
    fix s' a1 e1 a2 e2 a3 e3
    assume "base_init b tr
              = (Some (launch_error e3), s',
                 tr @ a1 @ [EvSleep retry_delay] @ a2 @ [EvSleep retry_delay] @ a3)"
      "attempt_fails b tr a1 e1" "attempt_fails b (tr @ a1 @ [EvSleep retry_delay]) a2 e2"
      "attempt_fails b (tr @ a1 @ [EvSleep retry_delay] @ a2 @ [EvSleep retry_delay]) a3 e3"
    then have "snd (snd (base_init b tr))
          = tr @ (a1 @ [EvSleep retry_delay] @ a2 @ [EvSleep retry_delay] @ a3)
        \<and> count_launches (a1 @ [EvSleep retry_delay] @ a2 @ [EvSleep retry_delay] @ a3)
            \<le> max_retries"
      using attempt_fails_count[of b tr a1 e1]
        attempt_fails_count[of b "tr @ a1 @ [EvSleep retry_delay]" a2 e2]
        attempt_fails_count[of b "tr @ a1 @ [EvSleep retry_delay] @ a2 @ [EvSleep retry_delay]" a3 e3]
      by (simp only: app sl m snd_conv) simp
    then show ?thesis by blast
  qed
qed

text \<open>
  C6. The start of a session makes at most \<open>max_retries = 3\<close> launch attempts, and what
  it does is determined by the answers of the browser to them. It is one of four runs:
  the first attempt succeeds; the first fails and the second succeeds; the first two
  fail and the third succeeds; all three fail. A failed attempt is followed by a delay
  of \<open>retry_delay = 2\<close> seconds and the next attempt, except the third, after which the
  start raises an exception whose message ends with the message of the third cause. When
  the first attempt succeeds the start returns at once, with that attempt alone in the
  trace; whenever three attempts in a row fail, for either reason an attempt can fail,
  the start raises.
\<close>

theorem init_retry_policy:
  "((attempt_succeeds b tr
      \<and> base_init b tr = (None, \<lparr>driver = IsDriver, wait = True\<rparr>, tr @ ok_attempt))
    \<or> (\<exists>a1 e1. attempt_fails b tr a1 e1
          \<and> attempt_succeeds b (tr @ a1 @ [EvSleep retry_delay])
          \<and> base_init b tr
              = (None, \<lparr>driver = IsDriver, wait = True\<rparr>,
                 tr @ a1 @ [EvSleep retry_delay] @ ok_attempt))
    \<or> (\<exists>a1 e1 a2 e2. attempt_fails b tr a1 e1
          \<and> attempt_fails b (tr @ a1 @ [EvSleep retry_delay]) a2 e2
          \<and> attempt_succeeds b (tr @ a1 @ [EvSleep retry_delay] @ a2 @ [EvSleep retry_delay])
          \<and> base_init b tr
              = (None, \<lparr>driver = IsDriver, wait = True\<rparr>,
                 tr @ a1 @ [EvSleep retry_delay] @ a2 @ [EvSleep retry_delay] @ ok_attempt))
    \<or> (\<exists>s' a1 e1 a2 e2 a3 e3. attempt_fails b tr a1 e1
          \<and> attempt_fails b (tr @ a1 @ [EvSleep retry_delay]) a2 e2
          \<and> attempt_fails b (tr @ a1 @ [EvSleep retry_delay] @ a2 @ [EvSleep retry_delay]) a3 e3
          \<and> base_init b tr
              = (Some (launch_error e3), s',
                 tr @ a1 @ [EvSleep retry_delay] @ a2 @ [EvSleep retry_delay] @ a3)))
   \<and> (\<exists>evs. snd (snd (base_init b tr)) = tr @ evs \<and> count_launches evs \<le> max_retries)
   \<and> (attempt_succeeds b tr
        \<longrightarrow> base_init b tr = (None, \<lparr>driver = IsDriver, wait = True\<rparr>, tr @ ok_attempt))
   \<and> (\<forall>a1 e1 a2 e2 a3 e3.
          attempt_fails b tr a1 e1
          \<and> attempt_fails b (tr @ a1 @ [EvSleep retry_delay]) a2 e2
          \<and> attempt_fails b (tr @ a1 @ [EvSleep retry_delay] @ a2 @ [EvSleep retry_delay]) a3 e3
        \<longrightarrow> fst (base_init b tr) = Some (launch_error e3)
            \<and> snd (snd (base_init b tr))
                = tr @ a1 @ [EvSleep retry_delay] @ a2 @ [EvSleep retry_delay] @ a3)
   \<and> launch_error e
       = Exception (''Failed to initialize Chrome driver after 3 attempts: '' @ str_exn e)
   \<and> max_retries = 3 \<and> retry_delay = 2"
proof (intro conjI)
  show "(attempt_succeeds b tr
      \<and> base_init b tr = (None, \<lparr>driver = IsDriver, wait = True\<rparr>, tr @ ok_attempt))
    \<or> (\<exists>a1 e1. attempt_fails b tr a1 e1
          \<and> attempt_succeeds b (tr @ a1 @ [EvSleep retry_delay])
          \<and> base_init b tr
              = (None, \<lparr>driver = IsDriver, wait = True\<rparr>,
                 tr @ a1 @ [EvSleep retry_delay] @ ok_attempt))
    \<or> (\<exists>a1 e1 a2 e2. attempt_fails b tr a1 e1
          \<and> attempt_fails b (tr @ a1 @ [EvSleep retry_delay]) a2 e2
          \<and> attempt_succeeds b (tr @ a1 @ [EvSleep retry_delay] @ a2 @ [EvSleep retry_delay])
          \<and> base_init b tr
              = (None, \<lparr>driver = IsDriver, wait = True\<rparr>,
                 tr @ a1 @ [EvSleep retry_delay] @ a2 @ [EvSleep retry_delay] @ ok_attempt))
    \<or> (\<exists>s' a1 e1 a2 e2 a3 e3. attempt_fails b tr a1 e1
          \<and> attempt_fails b (tr @ a1 @ [EvSleep retry_delay]) a2 e2
          \<and> attempt_fails b (tr @ a1 @ [EvSleep retry_delay] @ a2 @ [EvSleep retry_delay]) a3 e3
          \<and> base_init b tr
              = (Some (launch_error e3), s',
                 tr @ a1 @ [EvSleep retry_delay] @ a2 @ [EvSleep retry_delay] @ a3))"
    by (rule base_init_cases)
next
  show "\<exists>evs. snd (snd (base_init b tr)) = tr @ evs \<and> count_launches evs \<le> max_retries"
    by (rule base_init_count)
next
  show "attempt_succeeds b tr
        \<longrightarrow> base_init b tr = (None, \<lparr>driver = IsDriver, wait = True\<rparr>, tr @ ok_attempt)"
    using base_init_first by blast
next
  show "\<forall>a1 e1 a2 e2 a3 e3.
          attempt_fails b tr a1 e1
          \<and> attempt_fails b (tr @ a1 @ [EvSleep retry_delay]) a2 e2
          \<and> attempt_fails b (tr @ a1 @ [EvSleep retry_delay] @ a2 @ [EvSleep retry_delay]) a3 e3
        \<longrightarrow> fst (base_init b tr) = Some (launch_error e3)
            \<and> snd (snd (base_init b tr))
                = tr @ a1 @ [EvSleep retry_delay] @ a2 @ [EvSleep retry_delay] @ a3"
  proof (intro allI impI)
    fix a1 e1 a2 e2 a3 e3
    assume h: "attempt_fails b tr a1 e1
          \<and> attempt_fails b (tr @ a1 @ [EvSleep retry_delay]) a2 e2
          \<and> attempt_fails b (tr @ a1 @ [EvSleep retry_delay] @ a2 @ [EvSleep retry_delay]) a3 e3"
    then obtain s' where "base_init b tr
       = (Some (launch_error e3), s',
          tr @ a1 @ [EvSleep retry_delay] @ a2 @ [EvSleep retry_delay] @ a3)"
      using base_init_exhausted[of b tr a1 e1 a2 e2 a3 e3] by blast
    then show "fst (base_init b tr) = Some (launch_error e3)
            \<and> snd (snd (base_init b tr))
                = tr @ a1 @ [EvSleep retry_delay] @ a2 @ [EvSleep retry_delay] @ a3"
      by simp
  qed
next
  show "launch_error e
       = Exception (''Failed to initialize Chrome driver after 3 attempts: '' @ str_exn e)"
    by (simp add: launch_error_def max_retries_def)
qed (simp_all add: max_retries_def retry_delay_def)

theorem init_retry_policy_witness:
  "fst (base_init no_timeout_browser [])
     = Some (Exception ''Failed to initialize Chrome driver after 3 attempts: session not created'')
   \<and> snd (snd (base_init no_timeout_browser []))
     = [EvChrome None, EvSetPageLoadTimeout 30 (Some (WebDriverException ''session not created'')),
        EvSleep 2,
        EvChrome None, EvSetPageLoadTimeout 30 (Some (WebDriverException ''session not created'')),
        EvSleep 2,
        EvChrome None, EvSetPageLoadTimeout 30 (Some (WebDriverException ''session not created''))]
   \<and> base_init blank_browser []
     = (None, \<lparr>driver = IsDriver, wait = True\<rparr>, [EvChrome None, EvSetPageLoadTimeout 30 None])"
proof -
  let ?e = "WebDriverException ''session not created''"
  let ?a = "[EvChrome None, EvSetPageLoadTimeout 30 (Some ?e)]"
  have f: "\<And>t. attempt_fails no_timeout_browser t ?a ?e"
    by (simp add: attempt_fails_def no_timeout_browser_def blank_browser_def dead_browser_def)
  have k: "attempt_succeeds blank_browser []"
    by (simp add: attempt_succeeds_def blank_browser_def dead_browser_def)
  from init_retry_policy[of no_timeout_browser "[]" ?e] f have
    "fst (base_init no_timeout_browser []) = Some (launch_error ?e)
     \<and> snd (snd (base_init no_timeout_browser []))
         = [] @ ?a @ [EvSleep retry_delay] @ ?a @ [EvSleep retry_delay] @ ?a
     \<and> launch_error ?e
         = Exception (''Failed to initialize Chrome driver after 3 attempts: '' @ str_exn ?e)"
    by blast
  moreover from init_retry_policy[of blank_browser "[]" ?e] k have
    "base_init blank_browser [] = (None, \<lparr>driver = IsDriver, wait = True\<rparr>, [] @ ok_attempt)"
    by blast
  ultimately show ?thesis by (simp add: ok_attempt_def retry_delay_def)
qed

subsection \<open>Teardown\<close>

text \<open>
  C9. \<open>__del__\<close> has no exceptional outcome and leaves the scraper object as it is,
  whatever the state of the object: without a \<open>driver\<close> attribute, with \<open>None\<close>, or with
  a driver, whose \<open>quit\<close> may fail. So it can be called a second time, and after a start
  that failed.
\<close>

theorem del_total:
  "scraper_del b self tr
     = (None, self, if driver self = IsDriver then tr @ [EvQuit (driver_quit b tr)] else tr)
   \<and> fst (scraper_del b (fst (snd (scraper_del b self tr))) (snd (snd (scraper_del b self tr)))) = None
   \<and> fst (snd (scraper_del b (fst (snd (scraper_del b self tr))) (snd (snd (scraper_del b self tr)))))
       = self
   \<and> fst (scraper_del b (fst (snd (base_init b tr))) (snd (snd (base_init b tr)))) = None"
proof -
  have one: "\<And>s t. scraper_del b s t
     = (None, s, if driver s = IsDriver then t @ [EvQuit (driver_quit b t)] else t)"
    by (simp add: scraper_del_def Let_def split: option.splits)
  show ?thesis by (simp add: one)
qed

theorem del_total_witness:
  "scraper_del dead_browser \<lparr>driver = IsDriver, wait = False\<rparr> []
     = (None, \<lparr>driver = IsDriver, wait = False\<rparr>,
        [EvQuit (Some (WebDriverException ''invalid session id''))])
   \<and> scraper_del dead_browser \<lparr>driver = NoAttr, wait = False\<rparr> []
     = (None, \<lparr>driver = NoAttr, wait = False\<rparr>, [])"
  using del_total[of dead_browser "\<lparr>driver = IsDriver, wait = False\<rparr>" "[]"]
    del_total[of dead_browser "\<lparr>driver = NoAttr, wait = False\<rparr>" "[]"]
  by (simp add: dead_browser_def)

section \<open>Field resolution\<close>


























end
